theory Spec2Isabelle
  imports Complex_Main
begin

section \<open>Python values, exceptions and text primitives\<close>

text \<open>
  The values that flow through the pipeline are dictionary entries read from the store
  (text columns, possibly NULL) or passed by a caller. A Python \<open>str\<close> is modelled as a
  \<open>string\<close> whose characters are the code points 0..255; numbers that Python computes as
  floats are modelled as exact rationals.
\<close>

datatype pyval = PNone | PStr string | PInt int

datatype exn = TypeError | AttributeError | KeyError | MySQLError

type_synonym file_data = "string \<rightharpoonup> pyval"

definition dict_get :: "file_data \<Rightarrow> string \<Rightarrow> pyval \<Rightarrow> pyval" where
  \<comment> \<open>\<open>d.get(key, default)\<close>\<close>
  "dict_get d k dflt = (case d k of None \<Rightarrow> dflt | Some v \<Rightarrow> v)"

definition dict_item :: "file_data \<Rightarrow> string \<Rightarrow> exn + pyval" where
  \<comment> \<open>\<open>d[key]\<close>\<close>
  "dict_item d k = (case d k of None \<Rightarrow> Inl KeyError | Some v \<Rightarrow> Inr v)"

fun truthy :: "pyval \<Rightarrow> bool" where
  "truthy PNone = False"
| "truthy (PStr s) = (s \<noteq> [])"
| "truthy (PInt i) = (i \<noteq> 0)"

definition is_space :: "char \<Rightarrow> bool" where
  \<comment> \<open>\<open>str.isspace\<close> on the characters below 256: TAB..CR, FS..US, space, NEL, NBSP\<close>
  "is_space c =
     (let n = (of_char c :: nat)
      in (9 \<le> n \<and> n \<le> 13) \<or> (28 \<le> n \<and> n \<le> 32) \<or> n = 133 \<or> n = 160)"

function split_ws :: "string \<Rightarrow> string list" where
  \<comment> \<open>\<open>s.split()\<close>: the maximal runs of non-whitespace characters\<close>
  "split_ws [] = []"
| "split_ws (c # cs) =
     (if is_space c then split_ws cs
      else takeWhile (\<lambda>x. \<not> is_space x) (c # cs) # split_ws (dropWhile (\<lambda>x. \<not> is_space x) cs))"
  by pat_completeness auto
termination
  by (relation "measure length") (auto simp: less_Suc_eq_le length_dropWhile_le)

fun split_on :: "char \<Rightarrow> string \<Rightarrow> string list" where
  \<comment> \<open>\<open>s.split(sep)\<close> for a one-character separator: empty pieces are kept\<close>
  "split_on d [] = [[]]"
| "split_on d (c # cs) =
     (if c = d then [] # split_on d cs
      else (case split_on d cs of [] \<Rightarrow> [[c]] | w # ws \<Rightarrow> (c # w) # ws))"

definition strip :: "string \<Rightarrow> string" where
  "strip s = rev (dropWhile is_space (rev (dropWhile is_space s)))"

definition lower_char :: "char \<Rightarrow> char" where
  "lower_char c =
     (let n = (of_char c :: nat)
      in if (65 \<le> n \<and> n \<le> 90) \<or> (192 \<le> n \<and> n \<le> 222 \<and> n \<noteq> 215)
         then char_of (n + 32) else c)"

definition lower :: "string \<Rightarrow> string" where
  "lower s = map lower_char s"

function count_sub :: "string \<Rightarrow> string \<Rightarrow> nat" where
  \<comment> \<open>\<open>s.count(p)\<close>: occurrences of \<open>p\<close> in \<open>s\<close>, scanned left to right without overlap\<close>
  "count_sub [] s = Suc (length s)"
| "count_sub (p # ps) [] = 0"
| "count_sub (p # ps) (c # cs) =
     (if take (length (p # ps)) (c # cs) = p # ps
      then Suc (count_sub (p # ps) (drop (length ps) cs))
      else count_sub (p # ps) cs)"
  by pat_completeness auto
termination
  by (relation "measure (\<lambda>(p, s). length s)") auto

section \<open>Data quality checker\<close>

record check =
  check_value :: rat
  status :: string

definition mk_check :: "rat \<Rightarrow> string \<Rightarrow> check" where
  "mk_check v s = \<lparr>check_value = v, status = s\<rparr>"

definition check_completeness :: "pyval \<Rightarrow> exn + check" where
  "check_completeness text =
     (if \<not> truthy text then Inr (mk_check 0 ''failed'')
      else (case text of
              PStr s \<Rightarrow>
                if strip s = [] then Inr (mk_check 0 ''failed'')
                else (let word_count = length (split_ws s)
                      in if word_count < 10 then Inr (mk_check (3/10) ''poor'')
                         else if word_count < 50 then Inr (mk_check (6/10) ''fair'')
                         else Inr (mk_check (9/10) ''good''))
            | _ \<Rightarrow> Inl AttributeError))"

definition invalid_patterns :: "string list" where
  "invalid_patterns = [[CHR 0xEF, CHR 0xBF, CHR 0xBD], ''NULL'', ''undefined'']"

definition invalid_count :: "string \<Rightarrow> nat" where
  "invalid_count s = sum_list (map (\<lambda>pattern. count_sub pattern s) invalid_patterns)"

definition validity_score :: "string \<Rightarrow> rat" where
  "validity_score s =
     max 0 (1 - of_nat (invalid_count s) / of_nat (max (length (split_ws s)) 1))"

definition check_validity :: "pyval \<Rightarrow> exn + check" where
  "check_validity text =
     (case text of
        PStr s \<Rightarrow>
          if length s > 1000000 then Inr (mk_check (2/10) ''poor'')
          else (let score = validity_score s
                in Inr (mk_check score (if score > 8/10 then ''good'' else ''poor'')))
      | _ \<Rightarrow> Inl TypeError)"

definition check_consistency :: "file_data \<Rightarrow> exn + check" where
  "check_consistency fd =
     (let file_type = dict_get fd ''file_type'' (PStr '''');
          content_type = dict_get fd ''content_type'' (PStr '''')
      in if file_type \<noteq> content_type then Inr (mk_check (5/10) ''fair'')
         else Inr (mk_check (9/10) ''good''))"

definition uniqueness_ratio :: "string \<Rightarrow> rat" where
  "uniqueness_ratio s =
     (let words = split_ws s
      in of_nat (length (remdups words)) / of_nat (max (length words) 1))"

definition check_uniqueness :: "pyval \<Rightarrow> exn + check" where
  "check_uniqueness text =
     (case text of
        PStr s \<Rightarrow>
          (let r = uniqueness_ratio s
           in Inr (mk_check r (if r > 7/10 then ''good'' else ''fair'')))
      | _ \<Rightarrow> Inl AttributeError)"

definition check_accuracy :: "file_data \<Rightarrow> exn + check" where
  "check_accuracy fd = Inr (mk_check (8/10) ''good'')"

type_synonym checks = "(string \<times> check) list"

fun dict_set :: "(string \<times> 'a) list \<Rightarrow> string \<Rightarrow> 'a \<Rightarrow> (string \<times> 'a) list" where
  \<comment> \<open>\<open>d[key] = v\<close> on an insertion-ordered dictionary\<close>
  "dict_set [] k v = [(k, v)]"
| "dict_set ((k', v') # d) k v = (if k' = k then (k, v) # d else (k', v') # dict_set d k v)"

definition error_entry :: "checks \<Rightarrow> checks" where
  \<comment> \<open>the \<open>except\<close> branch: the entries stored so far stay, \<open>error\<close> is added\<close>
  "error_entry cs = dict_set cs ''error'' (mk_check 0 ''failed'')"

definition check_data_quality :: "file_data \<Rightarrow> checks" where
  "check_data_quality fd =
     (let text = dict_get fd ''extracted_text'' (PStr '''') in
      (case check_completeness text of
         Inl e \<Rightarrow> error_entry []
       | Inr c1 \<Rightarrow>
      (let cs1 = dict_set [] ''completeness'' c1 in
      (case check_validity text of
         Inl e \<Rightarrow> error_entry cs1
       | Inr c2 \<Rightarrow>
      (let cs2 = dict_set cs1 ''validity'' c2 in
      (case check_consistency fd of
         Inl e \<Rightarrow> error_entry cs2
       | Inr c3 \<Rightarrow>
      (let cs3 = dict_set cs2 ''consistency'' c3 in
      (case check_uniqueness text of
         Inl e \<Rightarrow> error_entry cs3
       | Inr c4 \<Rightarrow>
      (let cs4 = dict_set cs3 ''uniqueness'' c4 in
      (case check_accuracy fd of
         Inl e \<Rightarrow> error_entry cs4
       | Inr c5 \<Rightarrow> dict_set cs4 ''accuracy'' c5))))))))))"

section \<open>Analytics transformer\<close>

record analytics_rec =
  word_count :: nat
  char_count :: nat
  sentence_count :: nat
  sentiment_score :: rat
  readability_score :: rat

definition positive_words :: "string list" where
  "positive_words = [''good'', ''great'', ''excellent'', ''amazing'', ''wonderful'']"

definition negative_words :: "string list" where
  "negative_words = [''bad'', ''terrible'', ''awful'', ''horrible'', ''poor'']"

definition sentences :: "string \<Rightarrow> string list" where
  \<comment> \<open>\<open>[s for s in text.split('.') if s.strip()]\<close>\<close>
  "sentences s = filter (\<lambda>x. strip x \<noteq> []) (split_on (CHR ''.'') s)"

definition calculate_readability :: "string \<Rightarrow> rat" where
  "calculate_readability s =
     (let words = split_ws s; sents = sentences s
      in if length words = 0 \<or> length sents = 0 then 0
         else max 0 (100 - of_nat (length words) / of_nat (length sents)))"

definition positive_count :: "string \<Rightarrow> nat" where
  "positive_count s = length (filter (\<lambda>word. word \<in> set positive_words) (split_ws (lower s)))"

definition negative_count :: "string \<Rightarrow> nat" where
  "negative_count s = length (filter (\<lambda>word. word \<in> set negative_words) (split_ws (lower s)))"

definition sentiment :: "string \<Rightarrow> rat" where
  "sentiment s =
     (of_nat (positive_count s) - of_nat (negative_count s))
       / of_nat (max (length (split_ws s)) 1)"

definition perform_basic_analytics :: "file_data \<Rightarrow> exn + analytics_rec" where
  "perform_basic_analytics fd =
     (case dict_get fd ''extracted_text'' (PStr '''') of
        PStr s \<Rightarrow>
          Inr \<lparr>word_count = length (split_ws s),
               char_count = length s,
               sentence_count = length (sentences s),
               sentiment_score = sentiment s,
               readability_score = calculate_readability s\<rparr>
      | _ \<Rightarrow> Inl AttributeError)"

record features_rec =
  has_numbers :: bool
  has_special_chars :: bool
  avg_word_length :: rat
  capital_ratio :: rat

definition is_digit :: "char \<Rightarrow> bool" where
  "is_digit c = (let n = (of_char c :: nat) in (48 \<le> n \<and> n \<le> 57) \<or> n = 178 \<or> n = 179 \<or> n = 185)"

definition is_upper :: "char \<Rightarrow> bool" where
  "is_upper c =
     (let n = (of_char c :: nat)
      in (65 \<le> n \<and> n \<le> 90) \<or> (192 \<le> n \<and> n \<le> 214) \<or> (216 \<le> n \<and> n \<le> 222))"

definition is_alnum :: "char \<Rightarrow> bool" where
  "is_alnum c =
     (let n = (of_char c :: nat)
      in (65 \<le> n \<and> n \<le> 90) \<or> (97 \<le> n \<and> n \<le> 122) \<or> n = 170 \<or> n = 181 \<or> n = 186
         \<or> (192 \<le> n \<and> n \<le> 214) \<or> (216 \<le> n \<and> n \<le> 246) \<or> 248 \<le> n
         \<or> is_digit c \<or> (188 \<le> n \<and> n \<le> 190))"

definition engineer_features :: "file_data \<Rightarrow> exn + features_rec" where
  "engineer_features fd =
     (case dict_get fd ''extracted_text'' (PStr '''') of
        PStr s \<Rightarrow>
          Inr \<lparr>has_numbers = list_ex is_digit s,
               has_special_chars = list_ex (\<lambda>c. \<not> is_alnum c) s,
               avg_word_length =
                 of_nat (sum_list (map length (split_ws s))) / of_nat (max (length (split_ws s)) 1),
               capital_ratio = of_nat (length (filter is_upper s)) / of_nat (max (length s) 1)\<rparr>
      | _ \<Rightarrow> Inl TypeError)"

section \<open>ETL pipeline\<close>

record transformed =
  t_data_id :: pyval
  quality_metrics :: checks
  analytics :: analytics_rec
  features :: features_rec
  file_metadata :: file_data

definition transform_one :: "file_data \<Rightarrow> exn + transformed" where
  \<comment> \<open>the body of the \<open>try\<close> in the loop of \<open>_transform_data\<close>\<close>
  "transform_one fd =
     (let qm = check_data_quality fd in
      (case perform_basic_analytics fd of
         Inl e \<Rightarrow> Inl e
       | Inr a \<Rightarrow>
      (case engineer_features fd of
         Inl e \<Rightarrow> Inl e
       | Inr f \<Rightarrow>
      (case dict_item fd ''data_id'' of
         Inl e \<Rightarrow> Inl e
       | Inr d \<Rightarrow>
           Inr \<lparr>t_data_id = d, quality_metrics = qm, analytics = a, features = f,
                file_metadata = fd\<rparr>))))"

fun transform_data :: "file_data list \<Rightarrow> exn + transformed list" where
  \<comment> \<open>a record whose transform raises is logged and skipped; the log line reads
      \<open>file_data['file_id']\<close>, which itself raises when the key is absent\<close>
  "transform_data [] = Inr []"
| "transform_data (fd # fds) =
     (case transform_one fd of
        Inr t \<Rightarrow> (case transform_data fds of Inl e \<Rightarrow> Inl e | Inr ts \<Rightarrow> Inr (t # ts))
      | Inl e \<Rightarrow> (case dict_item fd ''file_id'' of Inl e' \<Rightarrow> Inl e' | Inr _ \<Rightarrow> transform_data fds))"

subsection \<open>The store\<close>

text \<open>
  The four tables of \<open>models.py\<close>, with the columns the pipeline reads or writes. A
  nullable column is an \<open>option\<close>. Identifiers generated by \<open>UUID()\<close> are drawn from a
  counter. The \<open>results\<close> column of \<open>analytics_results\<close> is declared \<open>JSON\<close>: it holds
  a text, and the store accepts a text there only if it is a JSON document.
\<close>

record file_row =
  f_file_id :: string
  f_filename :: "string option"
  f_file_type :: "string option"
  f_processed :: "bool option"
  f_metadata :: "string option"

record pd_row =
  pd_data_id :: string
  pd_file_id :: "string option"
  pd_content_type :: "string option"
  pd_extracted_text :: "string option"

record ar_row =
  ar_analysis_id :: nat
  ar_data_id :: "string option"
  ar_analysis_type :: string
  ar_results :: string
  ar_insights :: string
  ar_confidence_score :: rat

record qm_row =
  qm_metric_id :: nat
  qm_file_id :: "string option"
  qm_check_type :: string
  qm_check_value :: rat
  qm_status :: string

record store =
  files :: "file_row list"
  processed_data :: "pd_row list"
  analytics_results :: "ar_row list"
  data_quality_metrics :: "qm_row list"
  next_uuid :: nat

text \<open>
  Driver failures are an input of the model: \<open>extract_fault\<close> is the exception, if any,
  that a driver call inside \<open>_extract_unprocessed_files\<close> raises; \<open>load_fault k\<close> is the
  exception, if any, raised by driver call number \<open>k\<close> of \<open>_load_analytics\<close>, where call 0
  opens the connection and cursor, each \<open>execute\<close> is one further call and the last call is
  \<open>commit\<close>/\<open>close\<close>. The connection is opened with \<open>autocommit=True\<close>, so every
  statement that was executed stays in the store. \<open>float_repr\<close> is Python's rendering of a
  float by \<open>repr\<close>, which exact rationals do not determine; it is an input as well.
\<close>

record environment =
  extract_fault :: "exn option"
  load_fault :: "nat \<Rightarrow> exn option"
  float_repr :: "rat \<Rightarrow> string"

function show_nat :: "nat \<Rightarrow> string" where
  "show_nat n =
     (if n < 10 then [char_of (48 + n)] else show_nat (n div 10) @ [char_of (48 + n mod 10)])"
  by pat_completeness auto
termination
  by (relation "measure id") auto

declare show_nat.simps [simp del]

definition repr_whole :: "rat \<Rightarrow> string" where
  \<comment> \<open>\<open>repr\<close> of a float whose value is a whole number (below \<open>1e16\<close>): \<open>1.0\<close>, \<open>-1.0\<close>, \<open>97.0\<close>\<close>
  "repr_whole r = (if r < 0 then ''-'' else []) @ show_nat (nat \<lfloor>\<bar>r\<bar>\<rfloor>) @ ''.0''"

definition no_faults :: environment where
  "no_faults = \<lparr>extract_fault = None, load_fault = (\<lambda>k. None), float_repr = repr_whole\<rparr>"

fun sql_text :: "pyval \<Rightarrow> string option" where
  \<comment> \<open>a Python parameter bound to a text column\<close>
  "sql_text PNone = None"
| "sql_text (PStr s) = Some s"
| "sql_text (PInt i) = Some (if i < 0 then CHR ''-'' # show_nat (nat (- i)) else show_nat (nat i))"

definition opt_val :: "string option \<Rightarrow> pyval" where
  \<comment> \<open>a text column read into Python\<close>
  "opt_val x = (case x of None \<Rightarrow> PNone | Some s \<Rightarrow> PStr s)"

definition row_dict :: "file_row \<Rightarrow> pd_row \<Rightarrow> file_data" where
  \<comment> \<open>one row of the cursor opened with \<open>dictionary=True\<close>\<close>
  "row_dict f d =
     [''file_id'' \<mapsto> PStr (f_file_id f),
      ''filename'' \<mapsto> opt_val (f_filename f),
      ''file_type'' \<mapsto> opt_val (f_file_type f),
      ''metadata'' \<mapsto> opt_val (f_metadata f),
      ''data_id'' \<mapsto> PStr (pd_data_id d),
      ''content_type'' \<mapsto> opt_val (pd_content_type d),
      ''extracted_text'' \<mapsto> opt_val (pd_extracted_text d)]"

definition has_result :: "store \<Rightarrow> string \<Rightarrow> bool" where
  \<comment> \<open>\<open>EXISTS (SELECT 1 FROM analytics_results ar WHERE ar.data_id = pd.data_id)\<close>\<close>
  "has_result st d = list_ex (\<lambda>ar. ar_data_id ar = Some d) (analytics_results st)"

definition unprocessed :: "store \<Rightarrow> file_data list" where
  \<comment> \<open>the join of the extraction query without its \<open>LIMIT\<close>, in table order\<close>
  "unprocessed st =
     concat (map (\<lambda>f. map (row_dict f)
                         (filter (\<lambda>d. pd_file_id d = Some (f_file_id f)
                                       \<and> f_processed f = Some True
                                       \<and> \<not> has_result st (pd_data_id d))
                                 (processed_data st)))
                 (files st))"

definition extract_unprocessed_files :: "environment \<Rightarrow> store \<Rightarrow> nat \<Rightarrow> exn + file_data list" where
  "extract_unprocessed_files env st batch_size =
     (case extract_fault env of
        None \<Rightarrow> Inr (take batch_size (unprocessed st))
      | Some MySQLError \<Rightarrow> Inr []
      | Some e \<Rightarrow> Inl e)"

definition quoted :: "string \<Rightarrow> string" where
  \<comment> \<open>\<open>repr\<close> of a dictionary key: the key between single quotes\<close>
  "quoted s = CHR 0x27 # s @ [CHR 0x27]"

definition dict_str :: "(rat \<Rightarrow> string) \<Rightarrow> analytics_rec \<Rightarrow> string" where
  \<comment> \<open>\<open>str(data['analytics'])\<close>: the keys in insertion order; the readability score is
      the integer \<open>0\<close> exactly when it is zero (the early return and \<open>max(0, x)\<close> with
      \<open>x \<le> 0\<close>), a float otherwise; the sentiment score is always a float\<close>
  "dict_str repr a =
     ''{'' @ quoted ''word_count'' @ '': '' @ show_nat (word_count a) @ '', '' @
     quoted ''char_count'' @ '': '' @ show_nat (char_count a) @ '', '' @
     quoted ''sentence_count'' @ '': '' @ show_nat (sentence_count a) @ '', '' @
     quoted ''sentiment_score'' @ '': '' @ repr (sentiment_score a) @ '', '' @
     quoted ''readability_score'' @ '': '' @
       (if readability_score a = 0 then ''0'' else repr (readability_score a)) @ ''}''"

definition json_ws :: "char \<Rightarrow> bool" where
  \<comment> \<open>JSON whitespace: space, tab, line feed, carriage return\<close>
  "json_ws c = (let n = (of_char c :: nat) in n = 32 \<or> n = 9 \<or> n = 10 \<or> n = 13)"

definition json_rejected :: "string \<Rightarrow> bool" where
  \<comment> \<open>the texts that the JSON grammar excludes by their first two tokens: the empty
      document; a first character that starts no JSON value; an opening brace that is
      followed neither by the double quote of a member name nor by the closing brace.
      Every text the pipeline binds is decided here.\<close>
  "json_rejected s =
     (case dropWhile json_ws s of
        [] \<Rightarrow> True
      | c # r \<Rightarrow>
          if c = CHR ''{''
          then (case dropWhile json_ws r of
                  [] \<Rightarrow> True
                | c' # _ \<Rightarrow> c' \<noteq> CHR 0x22 \<and> c' \<noteq> CHR ''}'')
          else c \<notin> set (CHR 0x22 # ''[-0123456789tfn''))"

definition insert_analytics :: "(rat \<Rightarrow> string) \<Rightarrow> store \<Rightarrow> transformed \<Rightarrow> exn + store" where
  \<comment> \<open>the \<open>INSERT INTO analytics_results\<close>: the store raises a driver error on a
      \<open>results\<close> text that is not JSON, and appends the row otherwise\<close>
  "insert_analytics repr st d =
     (let results = dict_str repr (analytics d)
      in if json_rejected results then Inl MySQLError
         else Inr (st\<lparr>analytics_results := analytics_results st @
                   [\<lparr>ar_analysis_id = next_uuid st,
                     ar_data_id = sql_text (t_data_id d),
                     ar_analysis_type = ''basic_analytics'',
                     ar_results = results,
                     ar_insights =
                       ''Processed file with '' @ show_nat (word_count (analytics d)) @ '' words'',
                     ar_confidence_score = sentiment_score (analytics d)\<rparr>],
                 next_uuid := Suc (next_uuid st)\<rparr>))"

definition insert_metric :: "store \<Rightarrow> pyval \<Rightarrow> string \<Rightarrow> check \<Rightarrow> store" where
  "insert_metric st fid metric_type metric_value =
     st\<lparr>data_quality_metrics := data_quality_metrics st @
           [\<lparr>qm_metric_id = next_uuid st,
             qm_file_id = sql_text fid,
             qm_check_type = metric_type,
             qm_check_value = check_value metric_value,
             qm_status = status metric_value\<rparr>],
        next_uuid := Suc (next_uuid st)\<rparr>"

fun load_metrics ::
  "(nat \<Rightarrow> exn option) \<Rightarrow> file_data \<Rightarrow> checks \<Rightarrow> nat \<times> store \<Rightarrow> exn option \<times> nat \<times> store" where
  \<comment> \<open>the inner loop over \<open>data['quality_metrics'].items()\<close>\<close>
  "load_metrics lf fm [] (k, st) = (None, k, st)"
| "load_metrics lf fm ((metric_type, metric_value) # ms) (k, st) =
     (case dict_item fm ''file_id'' of
        Inl e \<Rightarrow> (Some e, k, st)
      | Inr fid \<Rightarrow>
          (case lf k of
             Some e \<Rightarrow> (Some e, k, st)
           | None \<Rightarrow> load_metrics lf fm ms (Suc k, insert_metric st fid metric_type metric_value)))"

fun load_records ::
  "environment \<Rightarrow> transformed list \<Rightarrow> nat \<times> store \<Rightarrow> exn option \<times> nat \<times> store" where
  \<comment> \<open>the outer loop over \<open>transformed_data\<close>\<close>
  "load_records env [] (k, st) = (None, k, st)"
| "load_records env (d # ds) (k, st) =
     (case load_fault env k of
        Some e \<Rightarrow> (Some e, k, st)
      | None \<Rightarrow>
          (case insert_analytics (float_repr env) st d of
             Inl e \<Rightarrow> (Some e, k, st)
           | Inr st1 \<Rightarrow>
               (case load_metrics (load_fault env) (file_metadata d) (quality_metrics d)
                       (Suc k, st1) of
                  (Some e, k', st') \<Rightarrow> (Some e, k', st')
                | (None, k', st') \<Rightarrow> load_records env ds (k', st'))))"

definition load_analytics :: "environment \<Rightarrow> store \<Rightarrow> transformed list \<Rightarrow> (exn + unit) \<times> store" where
  \<comment> \<open>every exception leaves the function: a driver error is logged and raised again\<close>
  "load_analytics env st td =
     (case load_fault env 0 of
        Some e \<Rightarrow> (Inl e, st)
      | None \<Rightarrow>
          (case load_records env td (1, st) of
             (Some e, k, st') \<Rightarrow> (Inl e, st')
           | (None, k, st') \<Rightarrow>
               (case load_fault env k of Some e \<Rightarrow> (Inl e, st') | None \<Rightarrow> (Inr (), st'))))"

definition run_pipeline :: "environment \<Rightarrow> store \<Rightarrow> nat \<Rightarrow> (exn + unit) \<times> store" where
  \<comment> \<open>\<open>Inl e\<close>: the run raised \<open>e\<close> to its caller; \<open>Inr ()\<close>: it returned\<close>
  "run_pipeline env st batch_size =
     (case extract_unprocessed_files env st batch_size of
        Inl e \<Rightarrow> (Inl e, st)
      | Inr files_data \<Rightarrow>
          if files_data = [] then (Inr (), st)
          else (case transform_data files_data of
                  Inl e \<Rightarrow> (Inl e, st)
                | Inr transformed_data \<Rightarrow> load_analytics env st transformed_data))"

section \<open>Vocabulary of the properties and concrete inputs\<close>

text \<open>
  The definitions below are not part of the program: they name the inputs at which the
  program is evaluated and the notions the properties are stated with (the check names, the
  lexicon hits of a text in the specification's words, the records that survive transform,
  the number of driver calls of a load).
\<close>

definition fifty_words :: string where
  "fifty_words = concat (replicate 50 ''word '')"

definition marked_million :: string where
  "marked_million = ''NULL'' @ replicate 999996 (CHR ''a'')"

definition clean_million :: string where
  "clean_million = replicate 1000000 (CHR ''a'')"

definition oversized :: string where
  "oversized = replicate 1000001 (CHR ''a'')"

definition null_text_doc :: file_data where
  "null_text_doc = [''extracted_text'' \<mapsto> PNone]"

definition check_names :: "string list" where
  "check_names = [''completeness'', ''validity'', ''consistency'', ''uniqueness'', ''accuracy'']"

definition failed_check :: check where
  "failed_check = \<lparr>check_value = 0, status = ''failed''\<rparr>"

definition valid_entry :: "check \<Rightarrow> bool" where
  "valid_entry c \<longleftrightarrow>
     0 \<le> check_value c \<and> check_value c \<le> 1 \<and>
     status c \<in> {''good'', ''fair'', ''poor'', ''failed''}"

definition lexicon_hits :: "string list \<Rightarrow> string \<Rightarrow> nat" where
  \<comment> \<open>the words of the text that are, in lower case, words of the lexicon\<close>
  "lexicon_hits lexicon t = length (filter (\<lambda>w. lower w \<in> set lexicon) (split_ws t))"

definition scenario_file :: "string \<Rightarrow> file_row" where
  "scenario_file i =
     \<lparr>f_file_id = i, f_filename = Some (i @ ''.txt''), f_file_type = Some ''txt'',
      f_processed = Some True, f_metadata = None\<rparr>"

definition scenario_doc :: "string \<Rightarrow> string \<Rightarrow> string \<Rightarrow> pd_row" where
  "scenario_doc d i text =
     \<lparr>pd_data_id = d, pd_file_id = Some i, pd_content_type = Some ''txt'',
      pd_extracted_text = Some text\<rparr>"

definition scenario_store :: store where
  "scenario_store =
     \<lparr>files = [scenario_file ''f1'', scenario_file ''f2'', scenario_file ''f3''],
      processed_data =
        [scenario_doc ''d1'' ''f1'' ''good good great'',
         scenario_doc ''d2'' ''f2'' ''bad bad terrible'',
         scenario_doc ''d3'' ''f3'' ''the quick fox''],
      analytics_results = [], data_quality_metrics = [], next_uuid = 0\<rparr>"

definition extract_down :: environment where
  \<comment> \<open>the store cannot be reached while the extraction query runs\<close>
  "extract_down =
     \<lparr>extract_fault = Some MySQLError, load_fault = (\<lambda>k. None), float_repr = repr_whole\<rparr>"

definition load_down :: environment where
  \<comment> \<open>driver call 1 of the load phase fails: the \<open>INSERT\<close> of the first record's
      analytics row\<close>
  "load_down =
     \<lparr>extract_fault = None, load_fault = (\<lambda>k. if k = 1 then Some MySQLError else None),
      float_repr = repr_whole\<rparr>"

definition surviving :: "file_data list \<Rightarrow> transformed list" where
  \<comment> \<open>the records whose transform does not raise, in order\<close>
  "surviving rows =
     concat (map (\<lambda>fd. case transform_one fd of Inl e \<Rightarrow> [] | Inr t \<Rightarrow> [t]) rows)"

definition load_calls :: "transformed list \<Rightarrow> nat" where
  \<comment> \<open>the driver calls of a load that runs to its end: connect, the statements, commit\<close>
  "load_calls td = 2 + sum_list (map (\<lambda>d. Suc (length (quality_metrics d))) td)"

section \<open>Properties of the text primitives\<close>

lemmas text_defs = is_space_def strip_def lower_def lower_char_def
lemmas quality_defs = check_data_quality_def dict_get_def check_completeness_def
  check_validity_def check_consistency_def check_uniqueness_def check_accuracy_def
  error_entry_def mk_check_def validity_score_def invalid_count_def invalid_patterns_def
  uniqueness_ratio_def

lemma dropWhile_all_iff: "(\<forall>x\<in>set (dropWhile P s). P x) \<longleftrightarrow> (\<forall>x\<in>set s. P x)"
  by (induction s) auto

lemma strip_empty_iff: "strip s = [] \<longleftrightarrow> (\<forall>c\<in>set s. is_space c)"
  by (simp add: strip_def dropWhile_eq_Nil_conv dropWhile_all_iff)

lemma split_ws_empty_iff: "split_ws s = [] \<longleftrightarrow> (\<forall>c\<in>set s. is_space c)"
  by (induction s rule: split_ws.induct) auto

lemma split_ws_single:
  assumes "s \<noteq> []" and ns: "\<forall>c\<in>set s. \<not> is_space c"
  shows "split_ws s = [s]"
proof (cases s)
  case Nil
  with assms show ?thesis by simp
next
  case (Cons c cs)
  from Cons ns have d: "dropWhile (\<lambda>x. \<not> is_space x) cs = []"
    by (simp add: dropWhile_eq_Nil_conv)
  from Cons ns have t: "takeWhile (\<lambda>x. \<not> is_space x) cs = cs"
    by (simp add: takeWhile_eq_all_conv)
  have e: "split_ws (dropWhile (\<lambda>x. \<not> is_space x) cs) = []"
    unfolding d by simp
  from Cons ns t e show ?thesis by simp
qed

lemma is_space_lower_char: "is_space (lower_char c) = is_space c"
  by (auto simp: is_space_def lower_char_def Let_def)

lemma split_ws_lower: "split_ws (lower s) = map lower (split_ws s)"
  unfolding lower_def
proof (induction s rule: split_ws.induct)
  case 1
  show ?case by simp
next
  case (2 c cs)
  have comp: "(\<lambda>x. \<not> is_space x) \<circ> lower_char = (\<lambda>x. \<not> is_space x)"
    by (auto simp: is_space_lower_char)
  show ?case
  proof (cases "is_space c")
    case True
    with 2 show ?thesis by (simp add: is_space_lower_char)
  next
    case False
    with 2 show ?thesis
      by (simp add: is_space_lower_char takeWhile_map dropWhile_map comp)
  qed
qed

lemma count_sub_absent: "c \<in> set p \<Longrightarrow> c \<notin> set s \<Longrightarrow> count_sub p s = 0"
proof (induction p s rule: count_sub.induct)
  case (1 s)
  then show ?case by simp
next
  case (2 p ps)
  then show ?case by simp
next
  case (3 p ps c cs)
  have "take (length (p # ps)) (c # cs) \<noteq> p # ps"
  proof
    assume "take (length (p # ps)) (c # cs) = p # ps"
    then have "set (p # ps) \<subseteq> set (c # cs)" by (metis set_take_subset)
    with 3 show False by auto
  qed
  with 3 show ?case by simp
qed

lemma validity_score_range: "0 \<le> validity_score s \<and> validity_score s \<le> 1"
  by (simp add: validity_score_def)

lemma uniqueness_ratio_range: "0 \<le> uniqueness_ratio s \<and> uniqueness_ratio s \<le> 1"
proof -
  have "length (remdups (split_ws s)) \<le> max (length (split_ws s)) 1"
    using length_remdups_leq [of "split_ws s"] by linarith
  then show ?thesis
    by (simp add: uniqueness_ratio_def Let_def divide_le_eq_1)
qed


lemma split_ws_word_append: "split_ws (''word '' @ s) = ''word'' # split_ws s"
  by (simp add: is_space_def)

lemma length_split_ws_words: "length (split_ws (concat (replicate n ''word ''))) = n"
proof (induction n)
  case 0
  show ?case by simp
next
  case (Suc n)
  have "split_ws (concat (replicate (Suc n) ''word '')) =
        ''word'' # split_ws (concat (replicate n ''word ''))"
    using split_ws_word_append [of "concat (replicate n ''word '')"] by simp
  with Suc show ?case by simp
qed

section \<open>Properties of the quality checker\<close>

text \<open>
  C5. The completeness check is a cascade: a text that is empty or consists of whitespace
  only gets value 0 and status \<open>failed\<close>; otherwise fewer than 10 words give 0.3 and
  \<open>poor\<close>, fewer than 50 words give 0.6 and \<open>fair\<close>, and 50 words or more give 0.9
  and \<open>good\<close>.
\<close>

theorem completeness_thresholds:
  "((\<forall>c\<in>set t. is_space c) \<longrightarrow>
      check_completeness (PStr t) = Inr \<lparr>check_value = 0, status = ''failed''\<rparr>) \<and>
   (\<not> (\<forall>c\<in>set t. is_space c) \<and> length (split_ws t) < 10 \<longrightarrow>
      check_completeness (PStr t) = Inr \<lparr>check_value = 3/10, status = ''poor''\<rparr>) \<and>
   (10 \<le> length (split_ws t) \<and> length (split_ws t) < 50 \<longrightarrow>
      check_completeness (PStr t) = Inr \<lparr>check_value = 6/10, status = ''fair''\<rparr>) \<and>
   (50 \<le> length (split_ws t) \<longrightarrow>
      check_completeness (PStr t) = Inr \<lparr>check_value = 9/10, status = ''good''\<rparr>)"
proof (cases "\<forall>c\<in>set t. is_space c")
  case True
  then have "strip t = []" and "split_ws t = []"
    by (simp_all add: strip_empty_iff split_ws_empty_iff)
  with True show ?thesis
    by (simp add: check_completeness_def mk_check_def)
next
  case False
  then have "strip t \<noteq> []" and "t \<noteq> []"
    by (auto simp: strip_empty_iff)
  with False show ?thesis
    by (simp add: check_completeness_def mk_check_def Let_def)
qed

theorem completeness_thresholds_witness:
  "check_completeness (PStr ''   '') = Inr \<lparr>check_value = 0, status = ''failed''\<rparr> \<and>
   check_completeness (PStr ''the quick fox'') = Inr \<lparr>check_value = 3/10, status = ''poor''\<rparr> \<and>
   check_completeness (PStr ''a b c d e f g h i j k'') = Inr \<lparr>check_value = 6/10, status = ''fair''\<rparr> \<and>
   check_completeness (PStr fifty_words) = Inr \<lparr>check_value = 9/10, status = ''good''\<rparr>"
proof -
  have l: "length (split_ws fifty_words) = 50"
    by (simp add: fifty_words_def length_split_ws_words)
  show ?thesis
    using completeness_thresholds [of "''   ''"] completeness_thresholds [of "''the quick fox''"]
      completeness_thresholds [of "''a b c d e f g h i j k''"]
      completeness_thresholds [of fifty_words] l
    by (simp add: is_space_def)
qed

text \<open>
  C10. For the empty string the validity check returns value 1 and status \<open>good\<close>:
  the divisor is \<open>max(word_count, 1)\<close>, so no division by zero occurs.
\<close>

theorem validity_empty_text:
  "check_validity (PStr '''') = Inr \<lparr>check_value = 1, status = ''good''\<rparr>"
  by (simp add: quality_defs)


lemma invalid_count_clean: "invalid_count (replicate n (CHR ''a'')) = 0"
proof -
  have a: "count_sub [CHR 0xEF, CHR 0xBF, CHR 0xBD] (replicate n (CHR ''a'')) = 0"
    by (rule count_sub_absent [where c = "CHR 0xEF"]) auto
  have b: "count_sub ''NULL'' (replicate n (CHR ''a'')) = 0"
    by (rule count_sub_absent [where c = "CHR ''N''"]) auto
  have c: "count_sub ''undefined'' (replicate n (CHR ''a'')) = 0"
    by (rule count_sub_absent [where c = "CHR ''u''"]) auto
  show ?thesis
    by (simp add: invalid_count_def invalid_patterns_def a b c)
qed

lemma invalid_count_marked: "invalid_count (''NULL'' @ replicate n (CHR ''a'')) = 1"
proof -
  have a: "count_sub [CHR 0xEF, CHR 0xBF, CHR 0xBD] (''NULL'' @ replicate n (CHR ''a'')) = 0"
    by (rule count_sub_absent [where c = "CHR 0xEF"]) auto
  have b0: "count_sub ''NULL'' (replicate n (CHR ''a'')) = 0"
    by (rule count_sub_absent [where c = "CHR ''N''"]) auto
  have b: "count_sub ''NULL'' (''NULL'' @ replicate n (CHR ''a'')) = 1"
    using b0 by simp
  have c: "count_sub ''undefined'' (''NULL'' @ replicate n (CHR ''a'')) = 0"
    by (rule count_sub_absent [where c = "CHR ''u''"]) auto
  show ?thesis
    unfolding invalid_count_def invalid_patterns_def list.map sum_list.Cons sum_list.Nil a b c
    by simp
qed

lemma split_ws_marked: "split_ws (''NULL'' @ replicate n (CHR ''a'')) = [''NULL'' @ replicate n (CHR ''a'')]"
  by (rule split_ws_single) (auto simp: is_space_def)

text \<open>
  C6. A text of exactly 1,000,000 characters is not caught by the oversized-document guard,
  which fires only for a length strictly above 1,000,000. Such a text is scored by its
  corruption markers like any shorter one: its status is \<open>good\<close> when the score exceeds
  0.8, in particular when it holds no marker, and \<open>poor\<close> otherwise.
\<close>

theorem validity_size_guard:
  "(length t \<le> 1000000 \<longrightarrow>
      check_validity (PStr t) =
        Inr \<lparr>check_value = validity_score t,
             status = (if validity_score t > 8/10 then ''good'' else ''poor'')\<rparr>) \<and>
   (length t = 1000000 \<and> invalid_count t = 0 \<longrightarrow>
      check_validity (PStr t) = Inr \<lparr>check_value = 1, status = ''good''\<rparr>) \<and>
   (length t > 1000000 \<longrightarrow>
      check_validity (PStr t) = Inr \<lparr>check_value = 2/10, status = ''poor''\<rparr>)"
  by (simp add: check_validity_def mk_check_def Let_def validity_score_def)

theorem validity_size_guard_witness:
  "length clean_million = 1000000 \<and> invalid_count clean_million = 0 \<and>
   check_validity (PStr clean_million) = Inr \<lparr>check_value = 1, status = ''good''\<rparr> \<and>
   length oversized > 1000000 \<and>
   check_validity (PStr oversized) = Inr \<lparr>check_value = 2/10, status = ''poor''\<rparr>"
proof -
  have l: "length clean_million = 1000000" and i: "invalid_count clean_million = 0"
    by (simp_all add: clean_million_def invalid_count_clean)
  have o: "length oversized > 1000000"
    by (simp add: oversized_def)
  show ?thesis
    using conjunct1 [OF conjunct2 [OF validity_size_guard [of clean_million]]]
      conjunct2 [OF conjunct2 [OF validity_size_guard [of oversized]]] l i o
    by simp
qed

text \<open>
  Not every text of 1,000,000 characters is \<open>good\<close>: the word NULL followed by 999,996
  letters is one word with one marker, so its score is 0 and its status \<open>poor\<close>.
\<close>

theorem validity_million_counterexample:
  "length marked_million = 1000000 \<and>
   check_validity (PStr marked_million) = Inr \<lparr>check_value = 0, status = ''poor''\<rparr>"
proof -
  have l: "length marked_million = 1000000"
    by (simp add: marked_million_def)
  have v: "validity_score marked_million = 0"
    unfolding validity_score_def marked_million_def invalid_count_marked split_ws_marked
    by simp
  show ?thesis
    using l v by (simp add: check_validity_def mk_check_def)
qed

text \<open>
  C8. The value of the uniqueness check is the number of distinct words divided by
  \<open>max(number of words, 1)\<close>; the status is \<open>good\<close> when the value exceeds 0.7 and
  \<open>fair\<close> otherwise; the value is exactly 1 for a text that has at least one word and no
  repeated word. A text without any word has no repeated word either, and its value is 0.
\<close>

theorem uniqueness_ratio_status:
  "check_uniqueness (PStr t) =
     Inr \<lparr>check_value = of_nat (card (set (split_ws t))) / of_nat (max (length (split_ws t)) 1),
          status = (if of_nat (card (set (split_ws t))) / of_nat (max (length (split_ws t)) 1)
                         > (7/10 :: rat) then ''good'' else ''fair'')\<rparr> \<and>
   (distinct (split_ws t) \<and> split_ws t \<noteq> [] \<longrightarrow>
      check_uniqueness (PStr t) = Inr \<lparr>check_value = 1, status = ''good''\<rparr>)"
proof -
  have d: "distinct (split_ws t) \<Longrightarrow> split_ws t \<noteq> [] \<Longrightarrow> uniqueness_ratio t = 1"
    by (cases "split_ws t") (simp_all add: uniqueness_ratio_def Let_def distinct_remdups_id)
  show ?thesis
    using d
    by (auto simp: check_uniqueness_def mk_check_def Let_def uniqueness_ratio_def
        length_remdups_card_conv)
qed

theorem uniqueness_ratio_status_witness:
  "distinct (split_ws ''the quick fox'') \<and> split_ws ''the quick fox'' \<noteq> [] \<and>
   check_uniqueness (PStr ''the quick fox'') = Inr \<lparr>check_value = 1, status = ''good''\<rparr>"
  using uniqueness_ratio_status [of "''the quick fox''"]
  by (simp add: is_space_def)


text \<open>
  The empty text has no repeated word, and its value is 0 with status \<open>fair\<close>.
\<close>

theorem uniqueness_empty_counterexample:
  "distinct (split_ws '''') \<and>
   check_uniqueness (PStr '''') = Inr \<lparr>check_value = 0, status = ''fair''\<rparr>"
  by (simp add: check_uniqueness_def uniqueness_ratio_def mk_check_def)

lemma check_completeness_valid: "check_completeness v = Inr c \<Longrightarrow> valid_entry c"
  by (cases v) (auto simp: check_completeness_def mk_check_def valid_entry_def Let_def split: if_splits)

lemma check_validity_valid: "check_validity v = Inr c \<Longrightarrow> valid_entry c"
  using validity_score_range
  by (cases v) (auto simp: check_validity_def mk_check_def valid_entry_def Let_def split: if_splits)

lemma check_consistency_valid: "check_consistency fd = Inr c \<Longrightarrow> valid_entry c"
  by (auto simp: check_consistency_def mk_check_def valid_entry_def Let_def split: if_splits)

lemma check_uniqueness_valid: "check_uniqueness v = Inr c \<Longrightarrow> valid_entry c"
  using uniqueness_ratio_range
  by (cases v) (auto simp: check_uniqueness_def mk_check_def valid_entry_def Let_def split: if_splits)

lemma check_accuracy_valid: "check_accuracy fd = Inr c \<Longrightarrow> valid_entry c"
  by (auto simp: check_accuracy_def mk_check_def valid_entry_def)

lemma failed_valid: "valid_entry (mk_check 0 ''failed'')"
  by (simp add: mk_check_def valid_entry_def)

lemmas checks_valid = check_completeness_valid check_validity_valid check_consistency_valid
  check_uniqueness_valid check_accuracy_valid

text \<open>
  C9. Every entry that the quality checker returns, for any input document, has a value in
  the interval [0, 1] and a status among \<open>good\<close>, \<open>fair\<close>, \<open>poor\<close>, \<open>failed\<close>; its
  name is one of the five check names or \<open>error\<close>.
\<close>

theorem check_entries_in_range:
  "\<forall>(name, c) \<in> set (check_data_quality fd).
     0 \<le> check_value c \<and> check_value c \<le> 1 \<and>
     status c \<in> {''good'', ''fair'', ''poor'', ''failed''} \<and>
     name \<in> set check_names \<union> {''error''}"
proof -
  have "\<forall>(name, c) \<in> set (check_data_quality fd).
          valid_entry c \<and> name \<in> set check_names \<union> {''error''}"
    unfolding check_data_quality_def Let_def error_entry_def check_names_def
    by (auto split: sum.splits if_splits dest: checks_valid simp: failed_valid)
  then show ?thesis
    unfolding valid_entry_def by fastforce
qed

theorem check_entries_in_range_witness:
  "(''uniqueness'', \<lparr>check_value = 2/3, status = ''fair''\<rparr>)
     \<in> set (check_data_quality [''extracted_text'' \<mapsto> PStr ''good good great'']) \<and>
   (0::rat) \<le> 2/3 \<and> (2/3::rat) \<le> 1 \<and>
   ''fair'' \<in> {''good'', ''fair'', ''poor'', ''failed''}"
proof -
  have m: "(''uniqueness'', \<lparr>check_value = 2/3, status = ''fair''\<rparr>)
     \<in> set (check_data_quality [''extracted_text'' \<mapsto> PStr ''good good great''])"
    by (simp add: quality_defs text_defs)
  show ?thesis
    using check_entries_in_range [of "[''extracted_text'' \<mapsto> PStr ''good good great'']"] m
    by auto
qed

text \<open>
  C3. When a check raises, the \<open>except\<close> branch adds the entry \<open>error\<close> with value 0
  and status \<open>failed\<close> to the entries stored so far, and the failing check and the ones
  after it get no entry. A text that is not a string makes a check raise: a truthy one in
  the completeness check, so that \<open>error\<close> is the only entry; \<open>None\<close> or another falsy
  one in the validity check, so that the \<open>completeness\<close> entry stays beside \<open>error\<close>. For
  a string no check raises and the five entries are returned.
\<close>

theorem quality_failure_entries:
  "(case dict_get fd ''extracted_text'' (PStr '''') of
      PStr s \<Rightarrow>
        map fst (check_data_quality fd) = check_names
    | v \<Rightarrow>
        check_data_quality fd =
          (if truthy v then [] else [(''completeness'', failed_check)]) @ [(''error'', failed_check)])"
  by (cases "dict_get fd ''extracted_text'' (PStr '''')")
     (auto simp: check_data_quality_def check_completeness_def check_validity_def
        check_consistency_def check_uniqueness_def check_accuracy_def error_entry_def mk_check_def
        failed_check_def check_names_def Let_def)

theorem quality_failure_entries_witness:
  "check_data_quality [''extracted_text'' \<mapsto> PInt 5] =
     [(''error'', \<lparr>check_value = 0, status = ''failed''\<rparr>)] \<and>
   check_data_quality [''extracted_text'' \<mapsto> PInt 0] =
     [(''completeness'', \<lparr>check_value = 0, status = ''failed''\<rparr>),
      (''error'', \<lparr>check_value = 0, status = ''failed''\<rparr>)] \<and>
   map fst (check_data_quality [''extracted_text'' \<mapsto> PStr ''the quick fox'']) = check_names"
  using quality_failure_entries [of "[''extracted_text'' \<mapsto> PInt 5]"]
    quality_failure_entries [of "[''extracted_text'' \<mapsto> PInt 0]"]
    quality_failure_entries [of "[''extracted_text'' \<mapsto> PStr ''the quick fox'']"]
  by (simp add: dict_get_def failed_check_def)


text \<open>
  A document whose text is NULL: the validity check raises on \<open>len(None)\<close> after the
  completeness entry was stored, so two entries are returned, not one.
\<close>

theorem quality_failure_counterexample:
  "check_validity (dict_get null_text_doc ''extracted_text'' (PStr '''')) = Inl TypeError \<and>
   check_data_quality null_text_doc =
     [(''completeness'', \<lparr>check_value = 0, status = ''failed''\<rparr>),
      (''error'', \<lparr>check_value = 0, status = ''failed''\<rparr>)]"
  by (simp add: null_text_doc_def quality_defs)

section \<open>Properties of the analytics transformer\<close>

lemma positive_count_hits: "positive_count t = lexicon_hits positive_words t"
  by (simp add: positive_count_def lexicon_hits_def split_ws_lower filter_map comp_def)

lemma negative_count_hits: "negative_count t = lexicon_hits negative_words t"
  by (simp add: negative_count_def lexicon_hits_def split_ws_lower filter_map comp_def)

lemma lexicon_hits_none:
  "\<forall>w\<in>set (split_ws t). lower w \<notin> set lexicon \<Longrightarrow> lexicon_hits lexicon t = 0"
  by (simp add: lexicon_hits_def)

text \<open>
  C7. For every text the sentiment score is the number of words found in the positive
  lexicon minus the number of words found in the negative lexicon, divided by
  \<open>max(word_count, 1)\<close>, the words being compared in lower case; it is exactly 0 for a
  text of any length none of whose words is a lexicon word.
\<close>

theorem sentiment_formula:
  assumes "dict_get fd ''extracted_text'' (PStr '''') = PStr t"
  shows "\<exists>a. perform_basic_analytics fd = Inr a \<and>
           sentiment_score a =
             (of_nat (lexicon_hits positive_words t) - of_nat (lexicon_hits negative_words t))
               / of_nat (max (length (split_ws t)) 1) \<and>
           ((\<forall>w\<in>set (split_ws t). lower w \<notin> set positive_words \<union> set negative_words)
              \<longrightarrow> sentiment_score a = 0)"
proof -
  have z: "\<forall>w\<in>set (split_ws t). lower w \<notin> set positive_words \<union> set negative_words \<Longrightarrow>
           sentiment t = 0"
    by (simp add: sentiment_def positive_count_hits negative_count_hits lexicon_hits_none)
  show ?thesis
    using assms z
    by (simp add: perform_basic_analytics_def sentiment_def positive_count_hits
        negative_count_hits)
qed

theorem sentiment_formula_witness:
  "dict_get [''extracted_text'' \<mapsto> PStr ''The quick fox''] ''extracted_text'' (PStr '''')
     = PStr ''The quick fox'' \<and>
   filter (\<lambda>w. lower w \<in> set positive_words \<union> set negative_words)
     (split_ws ''The quick fox'') = [] \<and>
   (\<exists>a. perform_basic_analytics [''extracted_text'' \<mapsto> PStr ''The quick fox''] = Inr a \<and>
        sentiment_score a = 0)"
proof -
  have g: "dict_get [''extracted_text'' \<mapsto> PStr ''The quick fox''] ''extracted_text'' (PStr '''')
     = PStr ''The quick fox''"
    by (simp add: dict_get_def)
  have n: "\<forall>w\<in>set (split_ws ''The quick fox''). lower w \<notin> set positive_words \<union> set negative_words"
    by (simp add: text_defs positive_words_def negative_words_def)
  then have f: "filter (\<lambda>w. lower w \<in> set positive_words \<union> set negative_words)
     (split_ws ''The quick fox'') = []"
    by (simp add: filter_empty_conv)
  show ?thesis
    using sentiment_formula [OF g] g n f by blast
qed



section \<open>Properties of the pipeline\<close>

lemma transform_data_surviving:
  "\<forall>fd\<in>set rows. fd ''file_id'' \<noteq> None \<Longrightarrow> transform_data rows = Inr (surviving rows)"
  by (induction rows) (auto simp: surviving_def dict_item_def split: sum.splits option.splits)

lemma surviving_member:
  "t \<in> set (surviving rows) \<longleftrightarrow> (\<exists>fd\<in>set rows. transform_one fd = Inr t)"
  by (induction rows) (auto simp: surviving_def split: sum.splits)

lemma transform_one_fields:
  "transform_one fd = Inr t \<Longrightarrow>
     fd ''data_id'' = Some (t_data_id t) \<and> file_metadata t = fd \<and>
     quality_metrics t = check_data_quality fd"
  by (auto simp: transform_one_def dict_item_def Let_def split: sum.splits option.splits)

lemma row_dict_keys:
  "row_dict f d ''file_id'' = Some (PStr (f_file_id f))"
  "row_dict f d ''data_id'' = Some (PStr (pd_data_id d))"
  by (simp_all add: row_dict_def)

lemma unprocessed_member:
  "fd \<in> set (unprocessed st) \<longleftrightarrow>
     (\<exists>f\<in>set (files st). \<exists>d\<in>set (processed_data st).
        fd = row_dict f d \<and> pd_file_id d = Some (f_file_id f) \<and> f_processed f = Some True \<and>
        \<not> has_result st (pd_data_id d))"
  by (auto simp: unprocessed_def)

lemma unprocessed_file_id: "fd \<in> set (unprocessed st) \<Longrightarrow> fd ''file_id'' \<noteq> None"
  by (auto simp: unprocessed_member row_dict_keys)

lemma take_unprocessed_file_id: "\<forall>fd\<in>set (take n (unprocessed st)). fd ''file_id'' \<noteq> None"
  by (auto dest: in_set_takeD unprocessed_file_id)

lemma surviving_check_names:
  assumes "t \<in> set (surviving rows)"
  shows "map fst (quality_metrics t) = check_names"
proof -
  from assms obtain fd where t: "transform_one fd = Inr t"
    by (auto simp: surviving_member)
  then obtain s where s: "dict_get fd ''extracted_text'' (PStr '''') = PStr s"
    by (cases "dict_get fd ''extracted_text'' (PStr '''')")
       (auto simp: transform_one_def perform_basic_analytics_def Let_def split: sum.splits)
  have "map fst (check_data_quality fd) = check_names"
    using s
    by (simp add: check_data_quality_def check_completeness_def check_validity_def
        check_consistency_def check_uniqueness_def check_accuracy_def mk_check_def
        check_names_def Let_def)
  with transform_one_fields [OF t] show ?thesis by simp
qed

lemmas pipeline_defs = run_pipeline_def extract_unprocessed_files_def unprocessed_def has_result_def
  row_dict_def opt_val_def transform_one_def perform_basic_analytics_def engineer_features_def
  dict_item_def load_analytics_def insert_analytics_def insert_metric_def no_faults_def
  sentences_def calculate_readability_def sentiment_def positive_count_def negative_count_def
  positive_words_def negative_words_def is_digit_def is_upper_def is_alnum_def
  dict_str_def quoted_def json_rejected_def json_ws_def
lemmas scenario_defs = scenario_store_def scenario_file_def scenario_doc_def

lemma dict_str_rejected: "json_rejected (dict_str repr a)"
  by (simp add: dict_str_def quoted_def json_rejected_def json_ws_def)

lemma insert_analytics_rejected: "insert_analytics repr st d = Inl MySQLError"
  by (simp add: insert_analytics_def dict_str_rejected)

lemma load_records_result:
  "load_records env td (k, st) =
     (case td of
        [] \<Rightarrow> (None, k, st)
      | d # ds \<Rightarrow> (Some (case load_fault env k of None \<Rightarrow> MySQLError | Some e \<Rightarrow> e), k, st))"
  by (cases td) (simp_all add: insert_analytics_rejected split: option.splits)


lemma load_analytics_raises:
  assumes "k < load_calls td" and "load_fault env k = Some e"
  shows "\<exists>e' st'. load_analytics env st td = (Inl e', st')"
proof (cases td)
  case Nil
  with assms(1) have "k = 0 \<or> k = 1"
    by (auto simp: load_calls_def)
  with assms(2) Nil show ?thesis
    by (auto simp: load_analytics_def load_records_result split: option.splits)
next
  case (Cons d ds)
  then show ?thesis
    by (simp add: load_analytics_def load_records_result split: option.splits)
qed

lemma load_analytics_rejected:
  assumes "td \<noteq> []" and "load_fault env 0 = None" and "load_fault env 1 = None"
  shows "load_analytics env st td = (Inl MySQLError, st)"
  using assms by (cases td) (simp_all add: load_analytics_def load_records_result)


lemma scenario_extract_down:
  "run_pipeline extract_down scenario_store 10 = (Inr (), scenario_store)"
  by (simp add: run_pipeline_def extract_unprocessed_files_def extract_down_def)


lemma scenario_surviving: "length (surviving (take 10 (unprocessed scenario_store))) = 3"
  by (simp add: surviving_def pipeline_defs scenario_defs quality_defs text_defs)

lemma scenario_load_calls:
  "load_calls (surviving (take 10 (unprocessed scenario_store))) = 20"
  by (simp add: load_calls_def surviving_def pipeline_defs scenario_defs quality_defs text_defs)

lemma scenario_transformed:
  "map (\<lambda>d. sentiment_score (analytics d)) (surviving (take 10 (unprocessed scenario_store)))
     = [1, -1, 0] \<and>
   map (\<lambda>d. map fst (quality_metrics d)) (surviving (take 10 (unprocessed scenario_store)))
     = [check_names, check_names, check_names]"
  by (simp add: surviving_def pipeline_defs scenario_defs quality_defs text_defs check_names_def)

text \<open>
  C1. Error policy of \<open>run_pipeline\<close>. A driver error raised by the extraction query is
  caught inside the extraction step, which returns an empty batch: the run returns
  normally and the store is unchanged. Only an exception that is not a driver error leaves
  the extraction step and is raised to the caller. An exception in the transform of one
  record never leaves the transform: the record is dropped and the others are kept. An
  exception raised by any driver call of the load phase is raised to the caller and ends
  the run.
\<close>

theorem run_error_policy:
  "(extract_fault env = Some MySQLError \<longrightarrow> run_pipeline env st n = (Inr (), st)) \<and>
   (extract_fault env = Some e \<and> e \<noteq> MySQLError \<longrightarrow> run_pipeline env st n = (Inl e, st)) \<and>
   transform_data (take n (unprocessed st)) = Inr (surviving (take n (unprocessed st))) \<and>
   (extract_fault env = None \<and> take n (unprocessed st) \<noteq> [] \<and>
    k < load_calls (surviving (take n (unprocessed st))) \<and> load_fault env k = Some e'
      \<longrightarrow> (\<exists>e'' st'. run_pipeline env st n = (Inl e'', st')))"
proof (intro conjI impI)
  assume "extract_fault env = Some MySQLError"
  then show "run_pipeline env st n = (Inr (), st)"
    by (simp add: run_pipeline_def extract_unprocessed_files_def)
next
  assume "extract_fault env = Some e \<and> e \<noteq> MySQLError"
  then show "run_pipeline env st n = (Inl e, st)"
    by (cases e) (simp_all add: run_pipeline_def extract_unprocessed_files_def)
next
  show "transform_data (take n (unprocessed st)) = Inr (surviving (take n (unprocessed st)))"
    by (rule transform_data_surviving) (rule take_unprocessed_file_id)
next
  let ?rows = "take n (unprocessed st)"
  assume a: "extract_fault env = None \<and> ?rows \<noteq> [] \<and>
             k < load_calls (surviving ?rows) \<and> load_fault env k = Some e'"
  have t: "transform_data ?rows = Inr (surviving ?rows)"
    by (rule transform_data_surviving) (rule take_unprocessed_file_id)
  from a t have "run_pipeline env st n = load_analytics env st (surviving ?rows)"
    by (simp add: run_pipeline_def extract_unprocessed_files_def)
  moreover from a have "\<exists>e'' st'. load_analytics env st (surviving ?rows) = (Inl e'', st')"
    by (intro load_analytics_raises [of k _ env e']) simp_all
  ultimately show "\<exists>e'' st'. run_pipeline env st n = (Inl e'', st')" by simp
qed

theorem run_error_policy_witness:
  "extract_fault extract_down = Some MySQLError \<and>
   run_pipeline extract_down scenario_store 10 = (Inr (), scenario_store) \<and>
   extract_fault load_down = None \<and> take 10 (unprocessed scenario_store) \<noteq> [] \<and>
   1 < load_calls (surviving (take 10 (unprocessed scenario_store))) \<and>
   load_fault load_down 1 = Some MySQLError \<and>
   (\<exists>e st'. run_pipeline load_down scenario_store 10 = (Inl e, st'))"
proof -
  have x: "extract_fault extract_down = Some MySQLError"
    by (simp add: extract_down_def)
  have l: "extract_fault load_down = None" "load_fault load_down 1 = Some MySQLError"
    by (simp_all add: load_down_def)
  have c: "1 < load_calls (surviving (take 10 (unprocessed scenario_store)))"
    by (simp add: scenario_load_calls)
  have r: "take 10 (unprocessed scenario_store) \<noteq> []"
    by (simp add: unprocessed_def has_result_def scenario_defs)
  show ?thesis
    using run_error_policy [where env = extract_down and st = scenario_store and n = 10]
      run_error_policy [where env = load_down and st = scenario_store and n = 10 and k = 1
        and e' = MySQLError]
      x l c r
    by blast
qed

text \<open>
  Two runs on the three-document store: with the store unreachable during extraction the
  run returns without an error and leaves the store as it was; with a driver error on the
  first record's insert the run ends with that error and no record is loaded.
\<close>

theorem run_error_policy_counterexample:
  "extract_fault extract_down = Some MySQLError \<and>
   run_pipeline extract_down scenario_store 10 = (Inr (), scenario_store) \<and>
   load_fault load_down 1 = Some MySQLError \<and>
   run_pipeline load_down scenario_store 10 = (Inl MySQLError, scenario_store)"
proof -
  have "run_pipeline load_down scenario_store 10 = (Inl MySQLError, scenario_store)"
    by (simp add: pipeline_defs scenario_defs quality_defs text_defs load_down_def)
  then show ?thesis
    using scenario_extract_down by (simp add: extract_down_def load_down_def)
qed

text \<open>
  C4. The load phase is written to insert, for every record that survives transform, one
  analytics row and one quality-metric row per check name. The analytics \<open>INSERT\<close> binds
  \<open>str(data['analytics'])\<close> to the \<open>results\<close> column, which is declared \<open>JSON\<close>; that
  text opens with a brace followed by a single quote, so the store rejects it. On the
  three documents "good good great", "bad bad terrible" and "the quick fox" a run with
  batch size 10 and no injected fault transforms three records, each with the five checks,
  with sentiment scores 1, -1 and 0, and then ends with the driver error of the first
  \<open>INSERT\<close>: no analytics row and no metric row is in the store.
\<close>

theorem scenario_load_rejected:
  "map (\<lambda>d. sentiment_score (analytics d)) (surviving (take 10 (unprocessed scenario_store)))
     = [1, -1, 0] \<and>
   map (\<lambda>d. map fst (quality_metrics d)) (surviving (take 10 (unprocessed scenario_store)))
     = [check_names, check_names, check_names] \<and>
   json_rejected (dict_str (float_repr no_faults)
     \<lparr>word_count = 3, char_count = 15, sentence_count = 1, sentiment_score = 1,
      readability_score = 97\<rparr>) \<and>
   run_pipeline no_faults scenario_store 10 = (Inl MySQLError, scenario_store) \<and>
   analytics_results scenario_store = [] \<and> data_quality_metrics scenario_store = []"
proof -
  have r: "run_pipeline no_faults scenario_store 10 = (Inl MySQLError, scenario_store)"
    by (simp add: pipeline_defs scenario_defs quality_defs text_defs)
  have e: "analytics_results scenario_store = [] \<and> data_quality_metrics scenario_store = []"
    by (simp add: scenario_store_def)
  show ?thesis
    using scenario_transformed r e dict_str_rejected by blast
qed



end
